theory Spec2Isabelle
  imports Main
begin

section \<open>Python strings\<close>

text \<open>
  A Python \<open>str\<close> is modelled as a \<open>string\<close>: every \<open>char\<close> stands for one code
  point in the range 0..255, so \<open>length\<close> is Python's \<open>len\<close> on such strings.
  \<open>isspace\<close> is \<open>str.isspace\<close> on that range; the regular expression class
  \<open>\s\<close> of a \<open>str\<close> pattern matches the same characters.
\<close>

definition code_point :: "char \<Rightarrow> nat" where
  "code_point c = of_char c"

definition isspace :: "char \<Rightarrow> bool" where
  "isspace c = (code_point c \<in> {9, 10, 11, 12, 13, 28, 29, 30, 31, 32, 133, 160})"

definition strip :: "string \<Rightarrow> string" where
  "strip s = rev (dropWhile isspace (rev (dropWhile isspace s)))"

definition lower_char :: "char \<Rightarrow> char" where
  "lower_char c =
     (let n = code_point c
      in if (65 \<le> n \<and> n \<le> 90) \<or> (192 \<le> n \<and> n \<le> 222 \<and> n \<noteq> 215)
         then char_of (n + 32) else c)"

definition lower :: "string \<Rightarrow> string" where
  "lower s = map lower_char s"

definition hex_digit :: "char \<Rightarrow> bool" where
  "hex_digit c =
     (let n = code_point c
      in (48 \<le> n \<and> n \<le> 57) \<or> (65 \<le> n \<and> n \<le> 70) \<or> (97 \<le> n \<and> n \<le> 102))"

definition startswith :: "string \<Rightarrow> string \<Rightarrow> bool" where
  "startswith s p = (take (length p) s = p)"

definition endswith :: "string \<Rightarrow> string \<Rightarrow> bool" where
  "endswith s p = (length p \<le> length s \<and> drop (length s - length p) s = p)"

text \<open>\<open>needle in hay\<close> on strings.\<close>

primrec contains :: "string \<Rightarrow> string \<Rightarrow> bool" where
  "contains [] needle = (needle = [])"
| "contains (c # cs) needle = (startswith (c # cs) needle \<or> contains cs needle)"

text \<open>\<open>str(n)\<close> for an integer, as an f-string renders it.\<close>

definition digit_char :: "nat \<Rightarrow> char" where
  "digit_char d = char_of (48 + d)"

fun str_nat :: "nat \<Rightarrow> string" where
  "str_nat n = (if n < 10 then [digit_char n] else str_nat (n div 10) @ [digit_char (n mod 10)])"

declare str_nat.simps [simp del]

definition str_int :: "int \<Rightarrow> string" where
  "str_int i = (if i < 0 then CHR ''-'' # str_nat (nat (- i)) else str_nat (nat i))"

section \<open>The netloc of \<open>urllib.parse.urlparse\<close>\<close>

text \<open>
  \<open>urlparse(url).netloc\<close> of the standard library (Python 3.11), which all three
  tools call: leading C0 control characters and spaces are dropped, tab, CR and LF are
  removed, a scheme is split off at the first colon when everything before it is a
  scheme character and the first character is an ASCII letter, and when the rest starts
  with \<open>//\<close> the netloc runs up to the first of \<open>/\<close>, \<open>?\<close>, \<open>#\<close>. A netloc with one
  square bracket but not the other raises \<open>ValueError\<close>; with both, the text between the
  first \<open>[\<close> and the next \<open>]\<close> must be an IPvFuture literal (when it starts with
  \<open>v\<close>) or an IPv6 address, else \<open>ValueError\<close> is raised. The verdict of
  \<open>ipaddress.ip_address\<close> is the parameter \<open>ip6addr\<close>: \<open>ip6addr h\<close> holds when \<open>h\<close> parses as
  an IPv6 address. The final check of the netloc under NFKC normalisation never raises
  for code points below 256.
\<close>

datatype py_exn = ValueError | TypeError | AttributeError

definition c0_control_or_space :: "char \<Rightarrow> bool" where
  "c0_control_or_space c = (code_point c \<le> 32)"

definition unsafe_url_byte :: "char \<Rightarrow> bool" where
  "unsafe_url_byte c = (code_point c \<in> {9, 10, 13})"

definition ascii_alpha :: "char \<Rightarrow> bool" where
  "ascii_alpha c =
     (let n = code_point c in (65 \<le> n \<and> n \<le> 90) \<or> (97 \<le> n \<and> n \<le> 122))"

definition scheme_char :: "char \<Rightarrow> bool" where
  "scheme_char c =
     (let n = code_point c
      in (65 \<le> n \<and> n \<le> 90) \<or> (97 \<le> n \<and> n \<le> 122) \<or> (48 \<le> n \<and> n \<le> 57)
         \<or> c = CHR ''+'' \<or> c = CHR ''-'' \<or> c = CHR ''.'')"

definition netloc_delim :: "char \<Rightarrow> bool" where
  "netloc_delim c = (c = CHR ''/'' \<or> c = CHR ''?'' \<or> c = CHR ''#'')"

definition split_scheme :: "string \<Rightarrow> string" where
  "split_scheme url =
     (let pre = takeWhile (\<lambda>c. c \<noteq> CHR '':'') url
      in if length pre < length url \<and> pre \<noteq> [] \<and> ascii_alpha (hd pre) \<and> list_all scheme_char pre
         then drop (length pre + 1) url else url)"

text \<open>\<open>re.match(r"\Av[a-fA-F0-9]+\..+\Z", hostname)\<close>.\<close>

definition ipvfuture :: "string \<Rightarrow> bool" where
  "ipvfuture h =
     (case h of
        [] \<Rightarrow> False
      | c # rest \<Rightarrow>
          c = CHR ''v''
          \<and> (let hx = takeWhile hex_digit rest; more = drop (length hx) rest
             in hx \<noteq> []
                \<and> (case more of
                      [] \<Rightarrow> False
                    | d # after \<Rightarrow> d = CHR ''.'' \<and> after \<noteq> [] \<and> CHR 0x0A \<notin> set after)))"

text \<open>\<open>_check_bracketed_host\<close>: true when it does not raise.\<close>

definition check_bracketed_host :: "(string \<Rightarrow> bool) \<Rightarrow> string \<Rightarrow> bool" where
  "check_bracketed_host ip6addr hostname =
     (if startswith hostname ''v'' then ipvfuture hostname else ip6addr hostname)"

text \<open>\<open>netloc.partition('[')[2].partition(']')[0]\<close>.\<close>

definition bracketed_host :: "string \<Rightarrow> string" where
  "bracketed_host netloc =
     takeWhile (\<lambda>c. c \<noteq> CHR '']'') (drop 1 (dropWhile (\<lambda>c. c \<noteq> CHR ''['') netloc))"

definition urlparse_netloc :: "(string \<Rightarrow> bool) \<Rightarrow> string \<Rightarrow> py_exn + string" where
  "urlparse_netloc ip6addr url =
     (let u = split_scheme (filter (\<lambda>c. \<not> unsafe_url_byte c) (dropWhile c0_control_or_space url))
      in if take 2 u = ''//''
         then (let netloc = takeWhile (\<lambda>c. \<not> netloc_delim c) (drop 2 u)
               in if (CHR ''['' \<in> set netloc \<and> CHR '']'' \<notin> set netloc)
                     \<or> (CHR '']'' \<in> set netloc \<and> CHR ''['' \<notin> set netloc)
                  then Inl ValueError
                  else if CHR ''['' \<in> set netloc \<and> CHR '']'' \<in> set netloc
                          \<and> \<not> check_bracketed_host ip6addr (bracketed_host netloc)
                  then Inl ValueError
                  else Inr netloc)
         else Inr [])"

section \<open>Link checker (\<open>link_checker.py\<close>)\<close>

record stats =
  total :: nat
  success :: nat
  failed :: nat
  timeout :: nat
  redirect :: nat
  ssl_error :: nat
  dns_error :: nat
  unknown_error :: nat

text \<open>
  A response time is either read off the clock (\<open>Measured\<close>, in the clock's unit; the
  rounding to two decimals is not modelled) or the allotted timeout in seconds.
\<close>

datatype duration = Measured nat | Seconds int

record link_info =
  li_url :: string
  li_title :: string
  li_category :: string

record check_result =
  r_url :: string
  r_title :: string
  r_category :: string
  r_status :: string
  r_status_code :: "int option"
  r_response_time :: "duration option"
  r_final_url :: "string option"
  r_error :: "string option"

record checker =
  stats :: stats
  failed_links :: "check_result list"

text \<open>
  What \<open>self.session.get(url, timeout=timeout, ...)\<close> does: it returns a response
  (status code, final URL, elapsed time) or raises. The \<open>except\<close> clauses are tried in
  the source's order: \<open>Timeout\<close>, \<open>SSLError\<close>, \<open>ConnectionError\<close>, \<open>Exception\<close>.
\<close>

datatype http_outcome =
    Response int string nat
  | RaisesTimeout
  | RaisesSSLError nat
  | RaisesConnectionError string nat
  | RaisesException string nat

definition normalize_url :: "string \<Rightarrow> string option" where
  "normalize_url url =
     (if url = [] then None
      else (let u = strip url
            in if \<not> (startswith u ''http://'' \<or> startswith u ''https://'')
               then Some (''https://'' @ u) else Some u))"

definition china_suffixes :: "string list" where
  "china_suffixes = [''.cn'', ''.com.cn'', ''.net.cn'', ''.org.cn'', ''.gov.cn'', ''.edu.cn'']"

definition is_china_domain :: "(string \<Rightarrow> bool) \<Rightarrow> string \<Rightarrow> bool" where
  "is_china_domain ip6addr url =
     (if url = [] then False
      else (case urlparse_netloc ip6addr url of
              Inl e \<Rightarrow> False
            | Inr netloc \<Rightarrow> list_ex (endswith (lower netloc)) china_suffixes))"

definition base_result :: "link_info \<Rightarrow> check_result" where
  "base_result li =
     \<lparr>r_url = li_url li, r_title = li_title li, r_category = li_category li,
      r_status = [], r_status_code = None, r_response_time = None,
      r_final_url = None, r_error = None\<rparr>"

definition fail_with :: "checker \<Rightarrow> check_result \<Rightarrow> (stats \<Rightarrow> stats) \<Rightarrow> check_result \<times> checker" where
  "fail_with s res bump =
     (res, s\<lparr>stats := bump (stats s), failed_links := failed_links s @ [res]\<rparr>)"

definition check_single_link ::
  "(string \<Rightarrow> bool) \<Rightarrow> (string \<Rightarrow> int \<Rightarrow> http_outcome) \<Rightarrow> checker \<Rightarrow> link_info \<Rightarrow> int
     \<Rightarrow> check_result \<times> checker" where
  "check_single_link ip6addr get s li timeout0 =
     (case normalize_url (li_url li) of
        None \<Rightarrow>
          ((base_result li)\<lparr>r_status := ''invalid_url'', r_error := Some ''Invalid URL format''\<rparr>, s)
      | Some url \<Rightarrow>
          (let tmo = (if is_china_domain ip6addr url then 20 else timeout0)
           in case get url tmo of
                Response code final elapsed \<Rightarrow>
                  (let res = (base_result li)\<lparr>r_status_code := Some code,
                                 r_response_time := Some (Measured elapsed),
                                 r_final_url := (if final \<noteq> url then Some final else None)\<rparr>
                   in if code = 200
                      then (res\<lparr>r_status := ''success''\<rparr>,
                            s\<lparr>stats := (stats s)\<lparr>success := success (stats s) + 1\<rparr>\<rparr>)
                      else if 300 \<le> code \<and> code < 400
                      then (res\<lparr>r_status := ''redirect''\<rparr>,
                            s\<lparr>stats := (stats s)\<lparr>redirect := redirect (stats s) + 1\<rparr>\<rparr>)
                      else fail_with s
                             (res\<lparr>r_status := ''http_error'',
                                  r_error := Some (''HTTP '' @ str_int code)\<rparr>)
                             (\<lambda>st. st\<lparr>failed := failed st + 1\<rparr>))
              | RaisesTimeout \<Rightarrow>
                  fail_with s
                    ((base_result li)\<lparr>r_status := ''timeout'',
                        r_response_time := Some (Seconds tmo),
                        r_error := Some (''Timeout after '' @ str_int tmo @ ''s'')\<rparr>)
                    (\<lambda>st. st\<lparr>timeout := timeout st + 1\<rparr>)
              | RaisesSSLError elapsed \<Rightarrow>
                  fail_with s
                    ((base_result li)\<lparr>r_status := ''ssl_error'',
                        r_response_time := Some (Measured elapsed),
                        r_error := Some ''SSL Certificate Error''\<rparr>)
                    (\<lambda>st. st\<lparr>ssl_error := ssl_error st + 1\<rparr>)
              | RaisesConnectionError error_msg elapsed \<Rightarrow>
                  (if contains error_msg ''Name or service not known''
                      \<or> contains error_msg ''getaddrinfo failed''
                   then fail_with s
                          ((base_result li)\<lparr>r_status := ''dns_error'',
                              r_response_time := Some (Measured elapsed),
                              r_error := Some ''Connection failed''\<rparr>)
                          (\<lambda>st. st\<lparr>dns_error := dns_error st + 1\<rparr>)
                   else fail_with s
                          ((base_result li)\<lparr>r_status := ''connection_error'',
                              r_response_time := Some (Measured elapsed),
                              r_error := Some ''Connection failed''\<rparr>)
                          (\<lambda>st. st\<lparr>failed := failed st + 1\<rparr>))
              | RaisesException msg elapsed \<Rightarrow>
                  fail_with s
                    ((base_result li)\<lparr>r_status := ''unknown_error'',
                        r_response_time := Some (Measured elapsed),
                        r_error := Some msg\<rparr>)
                    (\<lambda>st. st\<lparr>unknown_error := unknown_error st + 1\<rparr>)))"

section \<open>Logo tool (\<open>logo_tool.py\<close>): domains and candidate APIs\<close>

text \<open>
  A favicon template is the text before and after its single \<open>{domain}\<close> placeholder;
  \<open>api_template.format(domain=domain)\<close> puts the domain between the two.
\<close>

type_synonym template = "string \<times> string"

definition format_template :: "template \<Rightarrow> string \<Rightarrow> string" where
  "format_template t domain = fst t @ domain @ snd t"

definition favicon_apis :: "template list" where
  "favicon_apis =
     [(''https://api.iowen.cn/favicon/'', ''.png''),
      (''https://t2.gstatic.com/faviconV2?client=SOCIAL&type=FAVICON&fallback_opts=TYPE,SIZE,URL&url=https://'', ''&size=128''),
      (''https://www.google.com/s2/favicons?sz=128&domain='', []),
      (''https://favicons.githubusercontent.com/'', []),
      (''https://icons.duckduckgo.com/ip3/'', ''.ico''),
      (''https://favicon.im/'', ''?larger=true''),
      (''https://api.faviconkit.com/'', ''/128'')]"

definition china_favicon_apis :: "template list" where
  "china_favicon_apis =
     [(''https://statics.dnspod.cn/proxy_favicon/_/favicon?domain='', []),
      (''https://api.iowen.cn/favicon/'', ''.png''),
      (''https://favicon.link/f/'', []),
      (''https://icon.horse/icon/'', ''?size=large''),
      (''https://t2.gstatic.com/faviconV2?client=SOCIAL&type=FAVICON&fallback_opts=TYPE,SIZE,URL&url=https://'', ''&size=128''),
      (''https://www.google.com/s2/favicons?sz=128&domain='', []),
      (''https://api.faviconkit.com/'', ''/128'')]"

definition china_domains :: "string list" where
  "china_domains = [''.cn'', ''.com.cn'', ''.net.cn'', ''.org.cn'', ''.gov.cn'', ''.edu.cn'']"

text \<open>\<open>extract_domain\<close>: the \<open>except\<close> branch reports and returns the empty string.\<close>

definition extract_domain :: "(string \<Rightarrow> bool) \<Rightarrow> string \<Rightarrow> string" where
  "extract_domain ip6addr url0 =
     (let url = (if \<not> (startswith url0 ''http://'' \<or> startswith url0 ''https://'')
                 then ''https://'' @ url0 else url0)
      in case urlparse_netloc ip6addr url of
           Inl e \<Rightarrow> []
         | Inr netloc \<Rightarrow>
             (let domain = lower netloc
              in if startswith domain ''www.'' then drop 4 domain else domain))"

text \<open>\<open>UnifiedLogoTool.is_china_domain\<close>, which takes a domain, not a URL.\<close>

definition is_china_domain_logo :: "string \<Rightarrow> bool" where
  "is_china_domain_logo domain = list_ex (endswith (lower domain)) china_domains"

text \<open>The choice of candidate list and probe timeout in \<open>get_favicon_for_domain\<close>.\<close>

definition apis_to_use :: "string \<Rightarrow> template list \<times> int" where
  "apis_to_use domain =
     (if is_china_domain_logo domain then (china_favicon_apis, 15) else (favicon_apis, 10))"

text \<open>
  The loop over the candidates. \<open>test\<close> stands for \<open>test_favicon_url\<close> (a probe over the
  network), \<open>from_website\<close> for \<open>get_favicon_from_website\<close>.
\<close>

fun try_apis :: "(string \<Rightarrow> int \<Rightarrow> bool) \<Rightarrow> int \<Rightarrow> string \<Rightarrow> template list \<Rightarrow> string option" where
  "try_apis test tmo domain [] = None"
| "try_apis test tmo domain (t # ts) =
     (let favicon_url = format_template t domain
      in if test favicon_url tmo then Some favicon_url else try_apis test tmo domain ts)"

definition get_favicon_for_domain ::
  "(string \<Rightarrow> int \<Rightarrow> bool) \<Rightarrow> (string \<Rightarrow> string option) \<Rightarrow> string \<Rightarrow> string option" where
  "get_favicon_for_domain test from_website domain =
     (if domain = [] then None
      else (case try_apis test (snd (apis_to_use domain)) domain (fst (apis_to_use domain)) of
              Some favicon_url \<Rightarrow> Some favicon_url
            | None \<Rightarrow>
                (if is_china_domain_logo domain
                 then (case from_website domain of
                         Some direct_favicon \<Rightarrow>
                           (if direct_favicon \<noteq> [] then Some direct_favicon else None)
                       | None \<Rightarrow> None)
                 else None)))"

section \<open>The dataset\<close>

text \<open>
  A value read from the YAML document is null, a string, or another value (a number, a
  boolean, a sequence, a mapping). Of such another value the tools observe its truth
  value, its \<open>str()\<close> and whether it can be sliced; it has no \<open>strip\<close> and no
  \<open>decode\<close>.
\<close>

datatype yval = YNull | YStr string | YOther bool string bool

text \<open>\<open>d.get(key)\<close> and \<open>d.get(key, default)\<close> on a field that may be missing.\<close>

definition dict_get :: "yval option \<Rightarrow> yval" where
  "dict_get field = (case field of None \<Rightarrow> YNull | Some v \<Rightarrow> v)"

definition dict_get_default :: "yval \<Rightarrow> yval option \<Rightarrow> yval" where
  "dict_get_default dflt field = (case field of None \<Rightarrow> dflt | Some v \<Rightarrow> v)"

definition truthy :: "yval \<Rightarrow> bool" where
  "truthy v = (case v of YNull \<Rightarrow> False | YStr s \<Rightarrow> s \<noteq> [] | YOther t r sl \<Rightarrow> t)"

text \<open>\<open>f"{v}"\<close>.\<close>

definition format_value :: "yval \<Rightarrow> string" where
  "format_value v = (case v of YNull \<Rightarrow> ''None'' | YStr s \<Rightarrow> s | YOther t r sl \<Rightarrow> r)"

text \<open>Whether \<open>v[:40]\<close> returns; for \<open>None\<close> and a number it raises \<open>TypeError\<close>.\<close>

definition sliceable :: "yval \<Rightarrow> bool" where
  "sliceable v = (case v of YNull \<Rightarrow> False | YStr s \<Rightarrow> True | YOther t r sl \<Rightarrow> sl)"

text \<open>
  The document is a list of categories, each with a list of term groups, each with a
  list of link entries. The value under \<open>list\<close> and under \<open>links\<close> is missing, null
  or a list; iterating over null raises \<open>TypeError\<close>. A link entry is a dictionary
  that the tools mutate in place, and \<open>yaml.safe_load\<close> builds one dictionary for a
  node however many aliases refer to it: a group holds the addresses of its entries,
  the entries live in a heap, and the back-reference of a work item (\<open>link_obj\<close>,
  \<open>link_ref\<close>) is the address. Categories and groups are never assigned to.
\<close>

type_synonym addr = nat

record link_entry =
  title :: "yval option"
  url :: "yval option"
  description :: "yval option"
  logo :: "yval option"
  other_keys :: "(string \<times> yval) list"

datatype 'a seq_field = Missing | Null | Items "'a list"

record term_group =
  term_name :: "yval option"
  links :: "addr seq_field"

record category =
  taxonomy :: "yval option"
  tlist :: "term_group seq_field"

record document =
  cats :: "category list"
  heap :: "addr \<Rightarrow> link_entry"

text \<open>
  \<open>for x in d.get(key, [])\<close>, and \<open>if key not in d: continue\<close> followed by
  \<open>for x in d[key]\<close>: nothing to visit when the key is missing, \<open>TypeError\<close> when the
  value is null.
\<close>

definition iter_field :: "'a seq_field \<Rightarrow> py_exn + 'a list" where
  "iter_field f = (case f of Missing \<Rightarrow> Inr [] | Null \<Rightarrow> Inl TypeError | Items xs \<Rightarrow> Inr xs)"

text \<open>
  A loop that appends to a list and whose body may raise: the first exception ends it.
\<close>

fun collect_list :: "('a \<Rightarrow> py_exn + 'b list) \<Rightarrow> 'a list \<Rightarrow> py_exn + 'b list" where
  "collect_list body [] = Inr []"
| "collect_list body (x # xs) =
     (case body x of
        Inl e \<Rightarrow> Inl e
      | Inr ys \<Rightarrow> (case collect_list body xs of Inl e \<Rightarrow> Inl e | Inr zs \<Rightarrow> Inr (ys @ zs)))"

text \<open>The three nested loops over the document, with the body run on every link.\<close>

definition walk :: "(category \<Rightarrow> term_group \<Rightarrow> addr \<Rightarrow> py_exn + 'b list) \<Rightarrow> category list \<Rightarrow> py_exn + 'b list" where
  "walk body cs =
     collect_list (\<lambda>cat.
       case iter_field (tlist cat) of
         Inl e \<Rightarrow> Inl e
       | Inr groups \<Rightarrow>
           collect_list (\<lambda>grp.
             case iter_field (links grp) of
               Inl e \<Rightarrow> Inl e
             | Inr entries \<Rightarrow> collect_list (body cat grp) entries) groups) cs"

text \<open>The dataset file and what the tools print about it.\<close>

datatype msg = LoadFailed | Saved | SaveFailed

record world =
  disk :: "document option"
  printed :: "msg list"

text \<open>
  A write of the whole document (\<open>open(..., 'w')\<close> and \<open>yaml.dump\<close>, the parameter
  \<open>dump\<close> of the functions below) either succeeds or raises; after a failed write the
  file holds whatever the attempt left there.
\<close>

datatype write_outcome = Written | WriteFails "document option"

text \<open>
  A call returns a value, ends the process with \<open>sys.exit(code)\<close>, or raises an
  exception that nothing handles. The functions below give, with the ending, the
  dataset in memory when the call ends (\<open>None\<close> when none was loaded).
\<close>

datatype 'a ending = Return 'a | Exit nat | Raises py_exn

section \<open>Description generator (\<open>description_generator.py\<close>)\<close>

text \<open>
  The dictionary returned by \<open>extract_website_info\<close>; its key \<open>title\<close> is \<open>page_title\<close>
  here. The error dictionaries carry \<open>status\<close> and \<open>error\<close> only, every other key reads
  as \<open>None\<close>.
\<close>

record website_info =
  status :: string
  page_title :: "string option"
  meta_description :: "string option"
  og_description :: "string option"
  og_title :: "string option"
  meta_keywords :: "string option"
  main_text :: "string option"
  info_error :: "string option"

text \<open>\<open>re.sub(r'\s+', ' ', desc)\<close>: every maximal run of whitespace becomes one space.\<close>

function collapse_ws :: "string \<Rightarrow> string" where
  "collapse_ws [] = []"
| "collapse_ws (c # cs) =
     (if isspace c then CHR '' '' # collapse_ws (dropWhile isspace cs) else c # collapse_ws cs)"
  by pat_completeness auto
termination
  by (relation "measure length") (auto simp: less_Suc_eq_le length_dropWhile_le)

text \<open>The test \<open>desc and len(desc.strip()) > 10\<close> of the selection loop.\<close>

definition valid_source :: "string option \<Rightarrow> bool" where
  "valid_source desc = (case desc of None \<Rightarrow> False | Some d \<Rightarrow> d \<noteq> [] \<and> length (strip d) > 10)"

definition clean_description :: "string \<Rightarrow> string" where
  "clean_description desc =
     (let cleaned_desc = strip (collapse_ws desc)
      in if length cleaned_desc > 100 then take 100 cleaned_desc @ ''...'' else cleaned_desc)"

fun select_description :: "string option list \<Rightarrow> string option" where
  "select_description [] = None"
| "select_description (desc # rest) =
     (if valid_source desc then map_option clean_description desc else select_description rest)"

definition description_sources :: "website_info \<Rightarrow> string option list" where
  "description_sources website_info =
     [meta_description website_info, og_description website_info, og_title website_info,
      page_title website_info, main_text website_info]"

text \<open>
  \<open>urlparse(url).netloc\<close> as the f-string of the fallback renders it. For a string
  it is the netloc, or the \<open>ValueError\<close> of \<open>urlparse\<close>; a true value that is not a
  string has no \<open>decode\<close> (\<open>AttributeError\<close>); a false one parses to the empty bytes
  netloc, rendered \<open>b''\<close>.
\<close>

definition netloc_text :: "(string \<Rightarrow> bool) \<Rightarrow> yval \<Rightarrow> py_exn + string" where
  "netloc_text ip6addr v =
     (case v of
        YStr u \<Rightarrow> urlparse_netloc ip6addr u
      | YNull \<Rightarrow> Inr [CHR ''b'', CHR 0x27, CHR 0x27]
      | YOther t r sl \<Rightarrow> (if t then Inl AttributeError else Inr [CHR ''b'', CHR 0x27, CHR 0x27]))"

text \<open>
  \<open>generate_description\<close> returns \<open>None\<close>, a description, or propagates the exception
  of \<open>urlparse\<close> (it has no handler of its own).
\<close>

definition generate_description ::
  "(string \<Rightarrow> bool) \<Rightarrow> website_info \<Rightarrow> yval \<Rightarrow> yval \<Rightarrow> py_exn + string option" where
  "generate_description ip6addr website_info ttl link_url =
     (if status website_info = ''error'' then Inr None
      else (case select_description (description_sources website_info) of
              Some d \<Rightarrow> Inr (Some d)
            | None \<Rightarrow>
                (case netloc_text ip6addr link_url of
                   Inl e \<Rightarrow> Inl e
                 | Inr domain \<Rightarrow> Inr (Some (format_value ttl @ '' - '' @ domain)))))"

record work_item =
  wi_category :: yval
  wi_term :: yval
  wi_title :: yval
  wi_url :: yval
  link_obj :: addr

text \<open>The body of the loops that collect the links to update, in document order.\<close>

definition link_work :: "bool \<Rightarrow> category \<Rightarrow> term_group \<Rightarrow> addr \<Rightarrow> link_entry \<Rightarrow> work_item list" where
  "link_work only_null cat grp a link =
     (if only_null \<and> dict_get (description link) \<noteq> YNull then []
      else if truthy (dict_get (url link))
      then [\<lparr>wi_category = dict_get (taxonomy cat), wi_term = dict_get (term_name grp),
             wi_title = dict_get (title link), wi_url = dict_get (url link), link_obj = a\<rparr>]
      else [])"

definition links_to_update :: "bool \<Rightarrow> document \<Rightarrow> py_exn + work_item list" where
  "links_to_update only_null doc =
     walk (\<lambda>cat grp a. Inr (link_work only_null cat grp a (heap doc a))) (cats doc)"

text \<open>
  A completed future holds the dictionary of \<open>extract_website_info\<close> or raises.
  The thread pool with \<open>as_completed\<close> is a function from the submitted work items to
  the completed ones with their futures, in completion order; creating the pool with
  \<open>max_workers\<close> not above 0 raises \<open>ValueError\<close>.
\<close>

datatype fetch_future = FutureResult website_info | FutureRaises

text \<open>
  One round of the draining loop, on the heap and the two counters;
  \<open>link['link_obj']['description'] = description\<close> assigns in the heap.
\<close>

definition apply_result ::
  "(string \<Rightarrow> bool) \<Rightarrow> work_item \<times> fetch_future \<Rightarrow> (addr \<Rightarrow> link_entry) \<times> nat \<times> nat
     \<Rightarrow> (addr \<Rightarrow> link_entry) \<times> nat \<times> nat" where
  "apply_result ip6addr x acc =
     (case acc of (h, updated_count, failed_count) \<Rightarrow>
        (case snd x of
           FutureRaises \<Rightarrow> (h, updated_count, failed_count + 1)
         | FutureResult website_info \<Rightarrow>
             (case generate_description ip6addr website_info (wi_title (fst x)) (wi_url (fst x)) of
                Inl e \<Rightarrow> (h, updated_count, failed_count + 1)
              | Inr None \<Rightarrow> (h, updated_count, failed_count + 1)
              | Inr (Some d) \<Rightarrow>
                  (h(link_obj (fst x) := (h (link_obj (fst x)))\<lparr>description := Some (YStr d)\<rparr>),
                   updated_count + 1, failed_count))))"

fun process_completed ::
  "(string \<Rightarrow> bool) \<Rightarrow> (work_item \<times> fetch_future) list \<Rightarrow> (addr \<Rightarrow> link_entry) \<times> nat \<times> nat
     \<Rightarrow> (addr \<Rightarrow> link_entry) \<times> nat \<times> nat" where
  "process_completed ip6addr [] acc = acc"
| "process_completed ip6addr (x # xs) acc = process_completed ip6addr xs (apply_result ip6addr x acc)"

record update_report =
  rep_updated :: nat
  rep_failed :: nat
  rep_total :: nat

text \<open>
  \<open>update_descriptions\<close>: load (a missing or malformed file ends the process with
  status 1), collect (a null list raises out of the function), create the pool, drain
  it, save.
\<close>

definition update_descriptions ::
  "(string \<Rightarrow> bool) \<Rightarrow> (work_item list \<Rightarrow> (work_item \<times> fetch_future) list)
     \<Rightarrow> (document \<Rightarrow> write_outcome) \<Rightarrow> bool \<Rightarrow> int \<Rightarrow> world
     \<Rightarrow> world \<times> document option \<times> update_report ending" where
  "update_descriptions ip6addr pool dump only_null max_workers w =
     (case disk w of
        None \<Rightarrow> (w\<lparr>printed := printed w @ [LoadFailed]\<rparr>, None, Exit 1)
      | Some data0 \<Rightarrow>
          (case links_to_update only_null data0 of
             Inl e \<Rightarrow> (w, Some data0, Raises e)
           | Inr todo \<Rightarrow>
               (if max_workers \<le> 0 then (w, Some data0, Raises ValueError)
                else let acc = process_completed ip6addr (pool todo) (heap data0, 0, 0);
                    data = data0\<lparr>heap := fst acc\<rparr>
                in case dump data of
                     Written \<Rightarrow>
                       (w\<lparr>disk := Some data, printed := printed w @ [Saved]\<rparr>, Some data,
                        Return \<lparr>rep_updated = fst (snd acc), rep_failed = snd (snd acc),
                                rep_total = length todo\<rparr>)
                   | WriteFails left \<Rightarrow>
                       (w\<lparr>disk := left, printed := printed w @ [SaveFailed]\<rparr>, Some data,
                        Return \<lparr>rep_updated = 0, rep_failed = length todo,
                                rep_total = length todo\<rparr>))))"

section \<open>Logo tool: saving and verifying\<close>

definition save_webstack_data :: "(document \<Rightarrow> write_outcome) \<Rightarrow> document \<Rightarrow> world \<Rightarrow> world \<times> unit ending" where
  "save_webstack_data dump data w =
     (case dump data of
        Written \<Rightarrow> (w\<lparr>disk := Some data\<rparr>, Return ())
      | WriteFails left \<Rightarrow> (w\<lparr>disk := left, printed := printed w @ [SaveFailed]\<rparr>, Exit 1))"

record logo_item =
  lg_title :: yval
  lg_url :: yval
  lg_logo :: string
  link_ref :: addr

text \<open>
  The body of the loops that collect the logos to check. \<open>logo and logo.strip()\<close>
  raises \<open>AttributeError\<close> for a true value that is not a string.
\<close>

definition logo_work :: "addr \<Rightarrow> link_entry \<Rightarrow> py_exn + logo_item list" where
  "logo_work a link =
     (case dict_get_default (YStr []) (logo link) of
        YNull \<Rightarrow> Inr []
      | YStr lg \<Rightarrow>
          (if lg \<noteq> [] \<and> strip lg \<noteq> []
           then Inr [\<lparr>lg_title = dict_get_default (YStr ''Unknown'') (title link),
                      lg_url = dict_get_default (YStr []) (url link),
                      lg_logo = lg, link_ref = a\<rparr>]
           else Inr [])
      | YOther t r sl \<Rightarrow> (if t then Inl AttributeError else Inr []))"

definition logos_to_check :: "document \<Rightarrow> py_exn + logo_item list" where
  "logos_to_check doc = walk (\<lambda>cat grp a. logo_work a (heap doc a)) (cats doc)"

text \<open>
  A completed verification future holds the answer of \<open>test_favicon_url\<close> for the
  item's logo, or raises.
\<close>

datatype probe_future = Probed bool | ProbeRaises

record verify_stats =
  vs_total :: nat
  vs_valid :: nat
  vs_invalid :: nat
  vs_checked :: nat

text \<open>
  One round of the draining loop. The progress line prints \<open>title[:40]\<close> inside the
  \<open>try\<close>, after the counting: when that raises, the handler counts one more invalid.
\<close>

definition note_probe ::
  "logo_item \<times> probe_future \<Rightarrow> verify_stats \<times> logo_item list \<Rightarrow> verify_stats \<times> logo_item list" where
  "note_probe x acc =
     (case acc of (st, invalid_logos) \<Rightarrow>
        (case snd x of
           ProbeRaises \<Rightarrow> (st\<lparr>vs_invalid := vs_invalid st + 1\<rparr>, invalid_logos)
         | Probed is_valid \<Rightarrow>
             (let st1 = st\<lparr>vs_checked := vs_checked st + 1\<rparr>;
                  st2 = (if is_valid then st1\<lparr>vs_valid := vs_valid st1 + 1\<rparr>
                         else st1\<lparr>vs_invalid := vs_invalid st1 + 1\<rparr>);
                  invalid_logos2 = (if is_valid then invalid_logos else invalid_logos @ [fst x])
              in if sliceable (lg_title (fst x)) then (st2, invalid_logos2)
                 else (st2\<lparr>vs_invalid := vs_invalid st2 + 1\<rparr>, invalid_logos2))))"

fun collect_probes ::
  "(logo_item \<times> probe_future) list \<Rightarrow> verify_stats \<times> logo_item list \<Rightarrow> verify_stats \<times> logo_item list" where
  "collect_probes [] acc = acc"
| "collect_probes (x # xs) acc = collect_probes xs (note_probe x acc)"

text \<open>\<open>link_ref['logo'] = ''\<close> for every invalid logo.\<close>

fun clear_logos :: "logo_item list \<Rightarrow> (addr \<Rightarrow> link_entry) \<Rightarrow> (addr \<Rightarrow> link_entry)" where
  "clear_logos [] h = h"
| "clear_logos (it # its) h =
     clear_logos its (h(link_ref it := (h (link_ref it))\<lparr>logo := Some (YStr [])\<rparr>))"

definition verify_existing_logos ::
  "(logo_item list \<Rightarrow> (logo_item \<times> probe_future) list) \<Rightarrow> (document \<Rightarrow> write_outcome)
     \<Rightarrow> int \<Rightarrow> world \<Rightarrow> world \<times> document option \<times> verify_stats ending" where
  "verify_existing_logos pool dump max_workers w =
     (case disk w of
        None \<Rightarrow> (w\<lparr>printed := printed w @ [LoadFailed]\<rparr>, None, Exit 1)
      | Some data \<Rightarrow>
          (case logos_to_check data of
             Inl e \<Rightarrow> (w, Some data, Raises e)
           | Inr items \<Rightarrow>
               (let st0 = \<lparr>vs_total = length items, vs_valid = 0, vs_invalid = 0, vs_checked = 0\<rparr>
                in if items = [] then (w, Some data, Return st0)
                   else if max_workers \<le> 0 then (w, Some data, Raises ValueError)
                   else (let acc = collect_probes (pool items) (st0, []);
                             invalid_logos = snd acc
                         in if invalid_logos \<noteq> []
                            then (let data' = data\<lparr>heap := clear_logos invalid_logos (heap data)\<rparr>
                                  in case save_webstack_data dump data' w of
                                       (w', Exit n) \<Rightarrow> (w', Some data', Exit n)
                                     | (w', Raises e) \<Rightarrow> (w', Some data', Raises e)
                                     | (w', Return u) \<Rightarrow> (w', Some data', Return (fst acc)))
                            else (w, Some data, Return (fst acc))))))"

section \<open>Predicates used to state the properties\<close>

text \<open>
  A fetch fails when the future raises or \<open>extract_website_info\<close> returns a
  dictionary with status \<open>error\<close>.
\<close>

definition fetch_failed :: "fetch_future \<Rightarrow> bool" where
  "fetch_failed fut =
     (case fut of FutureRaises \<Rightarrow> True | FutureResult website_info \<Rightarrow> status website_info = ''error'')"

text \<open>
  The futures a run of \<open>update_descriptions\<close> submits and the ones it drains (none
  when collecting or creating the pool raises), and the futures a run of
  \<open>verify_existing_logos\<close> drains (none when collecting raises or finds no logo, or
  creating the pool raises).
\<close>

definition submitted :: "bool \<Rightarrow> int \<Rightarrow> document \<Rightarrow> work_item list" where
  "submitted only_null max_workers doc =
     (case links_to_update only_null doc of
        Inl e \<Rightarrow> []
      | Inr todo \<Rightarrow> (if max_workers \<le> 0 then [] else todo))"

definition completed ::
  "(work_item list \<Rightarrow> (work_item \<times> fetch_future) list) \<Rightarrow> bool \<Rightarrow> int \<Rightarrow> document
     \<Rightarrow> (work_item \<times> fetch_future) list" where
  "completed pool only_null max_workers doc =
     (case links_to_update only_null doc of
        Inl e \<Rightarrow> []
      | Inr todo \<Rightarrow> (if max_workers \<le> 0 then [] else pool todo))"

definition probed ::
  "(logo_item list \<Rightarrow> (logo_item \<times> probe_future) list) \<Rightarrow> int \<Rightarrow> document
     \<Rightarrow> (logo_item \<times> probe_future) list" where
  "probed pool max_workers doc =
     (case logos_to_check doc of
        Inl e \<Rightarrow> []
      | Inr items \<Rightarrow> (if items = [] \<or> max_workers \<le> 0 then [] else pool items))"


section \<open>Example inputs\<close>

text \<open>An address parser that knows the loopback address only.\<close>

definition only_loopback :: "string \<Rightarrow> bool" where
  "only_loopback h = (h = ''::1'')"

definition example_checker :: checker where
  "example_checker =
     \<lparr>stats = \<lparr>total = 0, success = 0, failed = 0, timeout = 0, redirect = 0,
                ssl_error = 0, dns_error = 0, unknown_error = 0\<rparr>,
      failed_links = []\<rparr>"

definition example_link :: link_info where
  "example_link =
     \<lparr>li_url = ''https://example.com'', li_title = ''Example'', li_category = ''Demo''\<rparr>"

definition example_cn_link :: link_info where
  "example_cn_link =
     \<lparr>li_url = ''www.example.com.cn/x'', li_title = ''Example CN'', li_category = ''Demo''\<rparr>"

text \<open>A site that answers 204, one that redirects, one that never answers within 20 seconds.\<close>

definition no_content_site :: "string \<Rightarrow> int \<Rightarrow> http_outcome" where
  "no_content_site u t = Response 204 u 3"

definition moved_site :: "string \<Rightarrow> int \<Rightarrow> http_outcome" where
  "moved_site u t = Response 301 u 3"

definition slow_site :: "string \<Rightarrow> int \<Rightarrow> http_outcome" where
  "slow_site u t = (if t = 20 then RaisesTimeout else Response 200 u 3)"

text \<open>
  A small dataset: one entry with a null description, one with a description. A second
  one in which an alias puts the first entry at two positions of a group, and a third
  whose only category has a null \<open>list\<close>.
\<close>

definition github_entry :: link_entry where
  "github_entry =
     \<lparr>title = Some (YStr ''GitHub''), url = Some (YStr ''https://github.com''),
      description = Some YNull, logo = Some (YStr ''https://github.com/favicon.ico''),
      other_keys = []\<rparr>"

definition docs_entry :: link_entry where
  "docs_entry =
     \<lparr>title = Some (YStr ''Docs''), url = Some (YStr ''https://docs.example.cn''),
      description = Some (YStr ''Existing description''),
      logo = Some (YStr ''https://docs.example.cn/logo.png''),
      other_keys = [(''tag'', YStr ''manual'')]\<rparr>"

definition example_heap :: "addr \<Rightarrow> link_entry" where
  "example_heap a = (if a = 0 then github_entry else docs_entry)"

definition example_data :: document where
  "example_data =
     \<lparr>cats = [\<lparr>taxonomy = Some (YStr ''Tools''),
               tlist = Items [\<lparr>term_name = Some (YStr ''Development''), links = Items [0, 1]\<rparr>]\<rparr>],
      heap = example_heap\<rparr>"

definition shared_data :: document where
  "shared_data =
     \<lparr>cats = [\<lparr>taxonomy = Some (YStr ''Tools''),
               tlist = Items [\<lparr>term_name = Some (YStr ''Development''), links = Items [0, 0]\<rparr>]\<rparr>],
      heap = example_heap\<rparr>"

definition null_list_data :: document where
  "null_list_data =
     \<lparr>cats = [\<lparr>taxonomy = Some (YStr ''Tools''), tlist = Null\<rparr>], heap = example_heap\<rparr>"

definition example_world :: world where
  "example_world = \<lparr>disk = Some example_data, printed = []\<rparr>"

definition shared_world :: world where
  "shared_world = \<lparr>disk = Some shared_data, printed = []\<rparr>"

definition null_list_world :: world where
  "null_list_world = \<lparr>disk = Some null_list_data, printed = []\<rparr>"

definition github_item :: work_item where
  "github_item =
     \<lparr>wi_category = YStr ''Tools'', wi_term = YStr ''Development'', wi_title = YStr ''GitHub'',
      wi_url = YStr ''https://github.com'', link_obj = 0\<rparr>"

text \<open>Pages: one that cannot be fetched, one with metadata, two with too little of it.\<close>

definition error_info :: website_info where
  "error_info =
     \<lparr>status = ''error'', page_title = None, meta_description = None, og_description = None,
      og_title = None, meta_keywords = None, main_text = None, info_error = Some ''timed out''\<rparr>"

definition github_info :: website_info where
  "github_info =
     \<lparr>status = ''success'', page_title = Some ''GitHub'', meta_description = None,
      og_description = Some ''The   platform for developers'', og_title = Some ''GitHub'',
      meta_keywords = None, main_text = None, info_error = None\<rparr>"

definition ten_char_info :: website_info where
  "ten_char_info =
     \<lparr>status = ''success'', page_title = Some ''Example Domain Home'',
      meta_description = Some ''0123456789'', og_description = None, og_title = None,
      meta_keywords = None, main_text = None, info_error = None\<rparr>"


text \<open>
  Thread pools: every fetch fails; every fetch succeeds, completing in reverse order;
  the first fetch fails and the second succeeds.
\<close>

definition unreachable_pool :: "work_item list \<Rightarrow> (work_item \<times> fetch_future) list" where
  "unreachable_pool ws = map (\<lambda>x. (x, FutureResult error_info)) ws"

definition fetched_pool :: "work_item list \<Rightarrow> (work_item \<times> fetch_future) list" where
  "fetched_pool ws = map (\<lambda>x. (x, FutureResult github_info)) (rev ws)"

definition half_pool :: "work_item list \<Rightarrow> (work_item \<times> fetch_future) list" where
  "half_pool ws = zip ws [FutureResult error_info, FutureResult github_info]"

text \<open>A file system that takes every write, and one that takes none.\<close>

definition disk_ok :: "document \<Rightarrow> write_outcome" where
  "disk_ok data = Written"

definition disk_full :: "document \<Rightarrow> write_outcome" where
  "disk_full data = WriteFails None"

definition github_logo :: logo_item where
  "github_logo =
     \<lparr>lg_title = YStr ''GitHub'', lg_url = YStr ''https://github.com'',
      lg_logo = ''https://github.com/favicon.ico'', link_ref = 0\<rparr>"

definition docs_logo :: logo_item where
  "docs_logo =
     \<lparr>lg_title = YStr ''Docs'', lg_url = YStr ''https://docs.example.cn'',
      lg_logo = ''https://docs.example.cn/logo.png'', link_ref = 1\<rparr>"

text \<open>
  Verification pools: only the logo of GitHub passes the probe; the first probe passes
  and the second fails.
\<close>

definition probe_pool :: "logo_item list \<Rightarrow> (logo_item \<times> probe_future) list" where
  "probe_pool its = map (\<lambda>x. (x, Probed (lg_logo x = ''https://github.com/favicon.ico''))) (rev its)"

definition flaky_pool :: "logo_item list \<Rightarrow> (logo_item \<times> probe_future) list" where
  "flaky_pool its = zip its [Probed True, Probed False]"

section \<open>Properties of the link checker\<close>

text \<open>
  C1, as stated, fails: a response with status 204 is in the 2xx range, and
  \<open>check_single_link\<close> classifies it as \<open>http_error\<close>, not as \<open>success\<close>.
\<close>

theorem status_2xx_counterexample:
  "r_status (fst (check_single_link only_loopback no_content_site example_checker example_link 10))
     = ''http_error''
   \<and> r_status (fst (check_single_link only_loopback no_content_site example_checker example_link 10))
     \<noteq> ''success''"
  by code_simp

text \<open>
  C1, amended: for every response that \<open>check_single_link\<close> receives, the status code
  200 is classified \<open>success\<close>, a code from 300 to 399 \<open>redirect\<close>, and every other
  code (the other 2xx codes among them) \<open>http_error\<close>.
\<close>

theorem status_of_response:
  assumes "normalize_url (li_url li) = Some u"
    and "get u (if is_china_domain ip6addr u then 20 else t) = Response code final elapsed"
  shows "r_status (fst (check_single_link ip6addr get s li t)) =
           (if code = 200 then ''success''
            else if 300 \<le> code \<and> code < 400 then ''redirect'' else ''http_error'')"
  using assms by (simp add: check_single_link_def fail_with_def Let_def)

text \<open>C1, amended, at a site that answers 301.\<close>

theorem status_of_response_witness:
  "normalize_url (li_url example_link) = Some ''https://example.com''
   \<and> moved_site ''https://example.com''
        (if is_china_domain only_loopback ''https://example.com'' then 20 else 10)
        = Response 301 ''https://example.com'' 3
   \<and> r_status (fst (check_single_link only_loopback moved_site example_checker example_link 10))
        = ''redirect''"
proof -
  have h1: "normalize_url (li_url example_link) = Some ''https://example.com''"
    by code_simp
  have h2: "moved_site ''https://example.com''
              (if is_china_domain only_loopback ''https://example.com'' then 20 else 10)
            = Response 301 ''https://example.com'' 3"
    by (simp add: moved_site_def)
  show ?thesis
    using h1 h2 status_of_response [where li = example_link and u = "''https://example.com''"
        and get = moved_site and t = 10 and code = 301 and ip6addr = only_loopback
        and final = "''https://example.com''" and elapsed = 3 and s = example_checker]
    by simp
qed

text \<open>
  C9: when the request raises a timeout under the timeout allotted to the domain, the
  result has status \<open>timeout\<close>, it is appended to the failed links, the \<open>timeout\<close>
  counter grows by one and the \<open>failed\<close> counter keeps its value.
\<close>

theorem timeout_result:
  assumes "normalize_url (li_url li) = Some u"
    and "get u (if is_china_domain ip6addr u then 20 else t) = RaisesTimeout"
  shows "r_status (fst (check_single_link ip6addr get s li t)) = ''timeout''
     \<and> failed_links (snd (check_single_link ip6addr get s li t))
         = failed_links s @ [fst (check_single_link ip6addr get s li t)]
     \<and> timeout (stats (snd (check_single_link ip6addr get s li t))) = timeout (stats s) + 1
     \<and> failed (stats (snd (check_single_link ip6addr get s li t))) = failed (stats s)"
  using assms by (simp add: check_single_link_def fail_with_def Let_def)

text \<open>C9 at a Chinese domain whose site does not answer within its 20 seconds.\<close>

theorem timeout_result_witness:
  "normalize_url (li_url example_cn_link) = Some ''https://www.example.com.cn/x''
   \<and> slow_site ''https://www.example.com.cn/x''
        (if is_china_domain only_loopback ''https://www.example.com.cn/x'' then 20 else 10)
        = RaisesTimeout
   \<and> r_status (fst (check_single_link only_loopback slow_site example_checker example_cn_link 10))
        = ''timeout''
   \<and> timeout (stats (snd (check_single_link only_loopback slow_site example_checker
                              example_cn_link 10))) = 1
   \<and> failed (stats (snd (check_single_link only_loopback slow_site example_checker
                             example_cn_link 10))) = 0"
proof -
  have h1: "normalize_url (li_url example_cn_link) = Some ''https://www.example.com.cn/x''"
    by code_simp
  have c: "is_china_domain only_loopback ''https://www.example.com.cn/x''"
    by code_simp
  have h2: "slow_site ''https://www.example.com.cn/x''
        (if is_china_domain only_loopback ''https://www.example.com.cn/x'' then 20 else 10)
        = RaisesTimeout"
    using c by (simp add: slow_site_def)
  show ?thesis
    using h1 h2 timeout_result [where li = example_cn_link and u = "''https://www.example.com.cn/x''"
        and get = slow_site and t = 10 and s = example_checker and ip6addr = only_loopback]
    by (simp add: example_checker_def)
qed

section \<open>Properties of the domain class\<close>






section \<open>Properties of \<open>extract_domain\<close>\<close>

text \<open>
  C8 fails on the code at a URL whose scheme is written in upper case:
  \<open>HTTP://Example.com\<close> has the netloc \<open>Example.com\<close>, but it does not start with the
  lower-case \<open>http://\<close>, so \<open>https://\<close> is put in front of it and the result is
  \<open>http:\<close>, not \<open>example.com\<close>. The same URL in lower case, and a URL with a
  lower-case scheme and the host \<open>WWW.Example.com\<close>, give the lower-cased host without
  \<open>www.\<close>.
\<close>

theorem upper_case_scheme_not_recognised:
  "urlparse_netloc ip6addr ''HTTP://Example.com'' = Inr ''Example.com''
   \<and> extract_domain ip6addr ''HTTP://Example.com'' = ''http:''
   \<and> extract_domain ip6addr ''http://example.com'' = ''example.com''
   \<and> extract_domain ip6addr ''https://WWW.Example.com/x'' = ''example.com''"
  by code_simp

section \<open>Properties of \<open>generate_description\<close>\<close>



lemma generate_description_error:
  "status website_info = ''error'' \<Longrightarrow> generate_description ip6addr website_info ttl u = Inr None"
  by (simp add: generate_description_def)

text \<open>
  What holds of the selection loop for every candidate: a candidate of at most 10
  characters after stripping is skipped, a longer one is selected, and a selected
  candidate of more than 100 characters after cleaning is cut to 100 characters
  followed by three dots.
\<close>

lemma short_candidate_skipped:
  assumes "length (strip d) \<le> 10"
  shows "select_description (Some d # rest) = select_description rest"
  using assms by (simp add: valid_source_def)

lemma long_candidate_selected:
  assumes "length (strip d) > 10"
  shows "select_description (Some d # rest) = Some (clean_description d)"
proof -
  from assms have "d \<noteq> []" by (auto simp: strip_def)
  with assms show ?thesis by (simp add: valid_source_def)
qed

lemma clean_description_truncates:
  assumes "length (strip (collapse_ws d)) > 100"
  shows "clean_description d = take 100 (strip (collapse_ws d)) @ ''...''"
    and "length (clean_description d) = 103"
  using assms by (simp_all add: clean_description_def Let_def)

text \<open>
  C3 fails on the code at a candidate of exactly 10 characters: the test is
  \<open>len(desc.strip()) > 10\<close>, so the 10-character meta description is rejected and the
  page title is returned in its place.
\<close>

theorem ten_character_candidate_rejected:
  "length (strip ''0123456789'') = 10
   \<and> \<not> valid_source (Some ''0123456789'')
   \<and> generate_description only_loopback ten_char_info (YStr ''Example'') (YStr ''https://example.com'')
       = Inr (Some ''Example Domain Home'')"
  by code_simp



section \<open>Collecting the work\<close>

lemma collect_list_member:
  assumes "collect_list body xs = Inr ys" and "y \<in> set ys"
  shows "\<exists>x\<in>set xs. \<exists>zs. body x = Inr zs \<and> y \<in> set zs"
  using assms
proof (induction xs arbitrary: ys)
  case Nil
  then show ?case by simp
next
  case (Cons x xs)
  from Cons.prems(1) obtain zs ws where b: "body x = Inr zs"
    and r: "collect_list body xs = Inr ws" and ys: "ys = zs @ ws"
    by (auto split: sum.splits)
  from Cons.prems(2) ys have "y \<in> set zs \<or> y \<in> set ws" by simp
  then show ?case
  proof
    assume "y \<in> set zs"
    with b show ?thesis by auto
  next
    assume "y \<in> set ws"
    from Cons.IH [OF r this] show ?thesis by auto
  qed
qed

lemma walk_member:
  assumes "walk body cs = Inr ys" and "y \<in> set ys"
  shows "\<exists>cat grp a zs. body cat grp a = Inr zs \<and> y \<in> set zs"
proof -
  from collect_list_member [OF assms [unfolded walk_def]]
  obtain cat ys1 where c: "(case iter_field (tlist cat) of
         Inl e \<Rightarrow> Inl e
       | Inr groups \<Rightarrow>
           collect_list (\<lambda>grp.
             case iter_field (links grp) of
               Inl e \<Rightarrow> Inl e
             | Inr entries \<Rightarrow> collect_list (body cat grp) entries) groups) = Inr ys1"
    and y1: "y \<in> set ys1"
    by blast
  from c obtain groups where
    g: "collect_list (\<lambda>grp.
             case iter_field (links grp) of
               Inl e \<Rightarrow> Inl e
             | Inr entries \<Rightarrow> collect_list (body cat grp) entries) groups = Inr ys1"
    by (auto split: sum.splits)
  from collect_list_member [OF g y1]
  obtain grp ys2 where c2: "(case iter_field (links grp) of
               Inl e \<Rightarrow> Inl e
             | Inr entries \<Rightarrow> collect_list (body cat grp) entries) = Inr ys2"
    and y2: "y \<in> set ys2"
    by blast
  from c2 obtain entries where l: "collect_list (body cat grp) entries = Inr ys2"
    by (auto split: sum.splits)
  from collect_list_member [OF l y2] show ?thesis by blast
qed

text \<open>Every collected work item points to an entry that passed the test of the loop.\<close>

lemma links_to_update_item:
  assumes "links_to_update only_null doc = Inr todo" and "x \<in> set todo"
  shows "(only_null \<longrightarrow> dict_get (description (heap doc (link_obj x))) = YNull)
         \<and> truthy (wi_url x) \<and> wi_url x = dict_get (url (heap doc (link_obj x)))"
proof -
  from walk_member [OF assms [unfolded links_to_update_def]]
  obtain cat grp a zs where
    "Inr (link_work only_null cat grp a (heap doc a)) = (Inr zs :: py_exn + work_item list)"
    and "x \<in> set zs"
    by blast
  then have "x \<in> set (link_work only_null cat grp a (heap doc a))" by simp
  then show ?thesis
    by (auto simp: link_work_def split: if_splits)
qed

lemma logos_to_check_item:
  assumes "logos_to_check doc = Inr items" and "x \<in> set items"
  shows "logo (heap doc (link_ref x)) = Some (YStr (lg_logo x))
         \<and> lg_logo x \<noteq> [] \<and> strip (lg_logo x) \<noteq> []"
proof -
  from walk_member [OF assms [unfolded logos_to_check_def]]
  obtain a zs where "logo_work a (heap doc a) = Inr zs" and "x \<in> set zs"
    by blast
  then show ?thesis
    by (cases "logo (heap doc a)")
       (auto simp: logo_work_def dict_get_default_def split: yval.splits if_splits)
qed

section \<open>Properties of \<open>update_descriptions\<close>\<close>

lemma apply_result_failed:
  assumes "fetch_failed (snd x)"
  shows "fst (apply_result ip6addr x acc) = fst acc"
  using assms
  by (cases acc)
     (auto simp: apply_result_def fetch_failed_def generate_description_error
           split: fetch_future.splits)

lemma apply_result_frame:
  assumes "link_obj (fst x) = a \<longrightarrow> fetch_failed (snd x)"
  shows "fst (apply_result ip6addr x acc) a = fst acc a"
proof (cases "link_obj (fst x) = a")
  case True
  with assms show ?thesis by (simp add: apply_result_failed)
next
  case False
  then show ?thesis
    by (cases acc)
       (auto simp: apply_result_def split: fetch_future.splits sum.splits option.splits)
qed

lemma process_completed_frame:
  assumes "\<forall>x\<in>set cs. link_obj (fst x) = a \<longrightarrow> fetch_failed (snd x)"
  shows "fst (process_completed ip6addr cs acc) a = fst acc a"
  using assms
proof (induction cs arbitrary: acc)
  case Nil
  then show ?case by simp
next
  case (Cons x cs)
  then show ?case by (simp add: apply_result_frame)
qed

text \<open>
  Every run on a loaded dataset ends with the categories it loaded and with the heap
  the draining loop leaves.
\<close>

lemma update_descriptions_memory:
  assumes "disk w = Some doc0"
  shows "\<exists>w' e. update_descriptions ip6addr pool dump only_null max_workers w =
           (w', Some (doc0\<lparr>heap := fst (process_completed ip6addr (completed pool only_null max_workers doc0)
                                          (heap doc0, 0, 0))\<rparr>), e)"
  using assms
  by (auto simp: update_descriptions_def completed_def Let_def
           split: sum.splits if_splits write_outcome.splits)

text \<open>
  C5, as stated, fails when a YAML alias puts one entry at two positions: the entry is
  collected twice, the first fetch fails, the second succeeds, and the entry of the
  work item whose fetch failed goes from null to the description.
\<close>

theorem shared_entry_described_counterexample:
  "links_to_update True shared_data = Inr [github_item, github_item]
   \<and> half_pool [github_item, github_item]
       = [(github_item, FutureResult error_info), (github_item, FutureResult github_info)]
   \<and> fetch_failed (FutureResult error_info)
   \<and> description (heap shared_data (link_obj github_item)) = Some YNull
   \<and> map_option (\<lambda>d. description (heap d (link_obj github_item)))
        (fst (snd (update_descriptions only_loopback half_pool disk_ok True 5 shared_world)))
       = Some (Some (YStr ''The platform for developers''))"
  by code_simp

text \<open>
  C5, amended: draining a work item whose fetch failed (the future raised, or
  \<open>extract_website_info\<close> returned an error status) writes to no entry, and in every
  run an entry keeps all its fields, so a null description stays null, when every
  completed work item that refers to it failed; an entry that a YAML alias puts at
  several positions takes the description of any of its work items that succeeded.
\<close>

theorem failed_fetch_writes_nothing:
  assumes "disk w = Some doc0"
  shows "(fetch_failed fut \<longrightarrow> fst (apply_result ip6addr (item, fut) (h, n, m)) = h)
       \<and> (\<exists>w' doc' e. update_descriptions ip6addr pool dump only_null max_workers w = (w', Some doc', e)
            \<and> cats doc' = cats doc0
            \<and> (\<forall>a. (\<forall>x\<in>set (completed pool only_null max_workers doc0).
                        link_obj (fst x) = a \<longrightarrow> fetch_failed (snd x))
                  \<longrightarrow> heap doc' a = heap doc0 a))"
proof
  show "fetch_failed fut \<longrightarrow> fst (apply_result ip6addr (item, fut) (h, n, m)) = h"
    using apply_result_failed [of "(item, fut)" ip6addr "(h, n, m)"] by simp
  from update_descriptions_memory [OF assms, of ip6addr pool dump only_null max_workers]
  obtain w' e where r: "update_descriptions ip6addr pool dump only_null max_workers w =
           (w', Some (doc0\<lparr>heap := fst (process_completed ip6addr (completed pool only_null max_workers doc0)
                                          (heap doc0, 0, 0))\<rparr>), e)"
    by blast
  show "\<exists>w' doc' e. update_descriptions ip6addr pool dump only_null max_workers w = (w', Some doc', e)
            \<and> cats doc' = cats doc0
            \<and> (\<forall>a. (\<forall>x\<in>set (completed pool only_null max_workers doc0).
                        link_obj (fst x) = a \<longrightarrow> fetch_failed (snd x))
                  \<longrightarrow> heap doc' a = heap doc0 a)"
    using r by (auto simp: process_completed_frame)
qed

text \<open>C5, amended, on the example dataset when no site can be reached.\<close>

theorem failed_fetch_writes_nothing_witness:
  "disk example_world = Some example_data
   \<and> fetch_failed (FutureResult error_info)
   \<and> fst (apply_result only_loopback (github_item, FutureResult error_info) (example_heap, 0, 0))
       = example_heap
   \<and> completed unreachable_pool True 5 example_data = [(github_item, FutureResult error_info)]
   \<and> (\<exists>w' doc' e. update_descriptions only_loopback unreachable_pool disk_ok True 5 example_world
                      = (w', Some doc', e)
          \<and> heap doc' 0 = github_entry \<and> description (heap doc' 0) = Some YNull)"
proof -
  have h1: "disk example_world = Some example_data" by (simp add: example_world_def)
  have h2: "fetch_failed (FutureResult error_info)"
    by (simp add: fetch_failed_def error_info_def)
  have c: "completed unreachable_pool True 5 example_data = [(github_item, FutureResult error_info)]"
    by code_simp
  have o: "link_obj github_item = 0" by (simp add: github_item_def)
  have e: "heap example_data 0 = github_entry" by (simp add: example_data_def example_heap_def)
  have d: "description github_entry = Some YNull" by (simp add: github_entry_def)
  note T = failed_fetch_writes_nothing [where ip6addr = only_loopback and pool = unreachable_pool
             and dump = disk_ok and only_null = True and fut = "FutureResult error_info"
             and item = github_item and h = example_heap and n = 0 and m = 0
             and max_workers = 5, OF h1]
  from T h2 have a: "fst (apply_result only_loopback (github_item, FutureResult error_info)
                           (example_heap, 0, 0)) = example_heap"
    by blast
  from T obtain w' doc' e' where
    r: "update_descriptions only_loopback unreachable_pool disk_ok True 5 example_world
          = (w', Some doc', e')"
    and f: "\<forall>a. (\<forall>x\<in>set (completed unreachable_pool True 5 example_data).
                        link_obj (fst x) = a \<longrightarrow> fetch_failed (snd x))
                  \<longrightarrow> heap doc' a = heap example_data a"
    by blast
  from f c h2 have "heap doc' 0 = heap example_data 0" by simp
  with e d r have b: "\<exists>w' doc' e. update_descriptions only_loopback unreachable_pool disk_ok True 5
                         example_world = (w', Some doc', e)
          \<and> heap doc' 0 = github_entry \<and> description (heap doc' 0) = Some YNull"
    by auto
  from h1 h2 a c b show ?thesis by blast
qed

text \<open>
  C6: in every run with \<open>only_null=True\<close> on a loaded dataset, whether it returns or
  raises while collecting, an entry whose description is not null before the run is
  the same entry after the run, and the categories and groups are the same.
\<close>

theorem described_entry_unchanged:
  assumes d: "disk w = Some doc0"
    and sub: "fst ` set (completed pool True max_workers doc0) \<subseteq> set (submitted True max_workers doc0)"
    and n: "dict_get (description (heap doc0 a)) \<noteq> YNull"
  shows "\<exists>w' doc' e. update_descriptions ip6addr pool dump True max_workers w = (w', Some doc', e)
           \<and> cats doc' = cats doc0 \<and> heap doc' a = heap doc0 a"
proof -
  have "\<forall>x\<in>set (completed pool True max_workers doc0). link_obj (fst x) = a \<longrightarrow> fetch_failed (snd x)"
  proof (intro ballI impI)
    fix x assume x: "x \<in> set (completed pool True max_workers doc0)" and o: "link_obj (fst x) = a"
    from x sub have s: "fst x \<in> set (submitted True max_workers doc0)" by auto
    have "\<exists>todo. links_to_update True doc0 = Inr todo \<and> fst x \<in> set todo"
    proof (cases "links_to_update True doc0")
      case (Inl e)
      with s show ?thesis by (simp add: submitted_def)
    next
      case (Inr todo)
      with s show ?thesis by (simp add: submitted_def split: if_splits)
    qed
    then obtain todo where t: "links_to_update True doc0 = Inr todo" and m: "fst x \<in> set todo"
      by blast
    from links_to_update_item [OF t m] o n show "fetch_failed (snd x)" by simp
  qed
  then have "fst (process_completed ip6addr (completed pool True max_workers doc0) (heap doc0, 0, 0)) a
               = heap doc0 a"
    by (simp add: process_completed_frame)
  with update_descriptions_memory [OF d, of ip6addr pool dump True max_workers] show ?thesis
    by auto
qed

text \<open>
  C6 on the example dataset when every fetch succeeds, and on the dataset with a null
  list, where the run raises \<open>TypeError\<close>.
\<close>

theorem described_entry_unchanged_witness:
  "disk example_world = Some example_data
   \<and> fst ` set (completed fetched_pool True 5 example_data) \<subseteq> set (submitted True 5 example_data)
   \<and> dict_get (description (heap example_data 1)) \<noteq> YNull
   \<and> (\<exists>w' doc' e. update_descriptions only_loopback fetched_pool disk_ok True 5 example_world
                      = (w', Some doc', e)
          \<and> heap doc' 1 = docs_entry)
   \<and> disk null_list_world = Some null_list_data
   \<and> fst ` set (completed fetched_pool True 5 null_list_data) \<subseteq> set (submitted True 5 null_list_data)
   \<and> dict_get (description (heap null_list_data 1)) \<noteq> YNull
   \<and> snd (snd (update_descriptions only_loopback fetched_pool disk_ok True 5 null_list_world))
       = Raises TypeError
   \<and> (\<exists>w' doc' e. update_descriptions only_loopback fetched_pool disk_ok True 5 null_list_world
                      = (w', Some doc', e)
          \<and> heap doc' 1 = docs_entry)"
proof -
  have h1: "disk example_world = Some example_data" by (simp add: example_world_def)
  have s: "submitted True 5 example_data = [github_item]" by code_simp
  have c: "completed fetched_pool True 5 example_data = [(github_item, FutureResult github_info)]"
    by code_simp
  have h2: "fst ` set (completed fetched_pool True 5 example_data) \<subseteq> set (submitted True 5 example_data)"
    by (simp add: s c)
  have e: "heap example_data 1 = docs_entry" by (simp add: example_data_def example_heap_def)
  have h3: "dict_get (description (heap example_data 1)) \<noteq> YNull"
    by code_simp
  have k1: "disk null_list_world = Some null_list_data" by (simp add: null_list_world_def)
  have c': "completed fetched_pool True 5 null_list_data = []" by code_simp
  have k2: "fst ` set (completed fetched_pool True 5 null_list_data)
              \<subseteq> set (submitted True 5 null_list_data)"
    by (simp add: c')
  have e': "heap null_list_data 1 = docs_entry" by (simp add: null_list_data_def example_heap_def)
  have k3: "dict_get (description (heap null_list_data 1)) \<noteq> YNull"
    by code_simp
  have r: "snd (snd (update_descriptions only_loopback fetched_pool disk_ok True 5 null_list_world))
       = Raises TypeError"
    by code_simp
  from described_entry_unchanged [where ip6addr = only_loopback and pool = fetched_pool
         and dump = disk_ok, OF h1 h2 h3] e
  have a: "\<exists>w' doc' e. update_descriptions only_loopback fetched_pool disk_ok True 5 example_world
                      = (w', Some doc', e) \<and> heap doc' 1 = docs_entry"
    by auto
  from described_entry_unchanged [where ip6addr = only_loopback and pool = fetched_pool
         and dump = disk_ok, OF k1 k2 k3] e'
  have b: "\<exists>w' doc' e. update_descriptions only_loopback fetched_pool disk_ok True 5 null_list_world
                      = (w', Some doc', e) \<and> heap doc' 1 = docs_entry"
    by auto
  from h1 h2 h3 a k1 k2 k3 r b show ?thesis by blast
qed

section \<open>Properties of saving\<close>

text \<open>
  C2, as stated, fails for the logo tool: when the write fails,
  \<open>save_webstack_data\<close> ends the process with status 1, and so does the verify command
  that calls it.
\<close>

theorem save_failure_exits_counterexample:
  "snd (save_webstack_data disk_full example_data example_world) = Exit 1
   \<and> snd (save_webstack_data disk_full example_data example_world) \<noteq> Return ()
   \<and> snd (snd (verify_existing_logos probe_pool disk_full 3 example_world)) = Exit 1"
  by code_simp

text \<open>
  C2, amended: when the write fails in \<open>update_descriptions\<close> (the run has collected
  its links and created its pool), the failure is
  reported, the function returns (with 0 updated and every collected link counted as
  failed) and the in-memory dataset is the one with the updates applied; when the write
  fails in the logo tool's \<open>save_webstack_data\<close>, the failure is reported and the
  process ends with status 1.
\<close>

theorem failed_save_reported:
  assumes "disk w = Some data0"
    and "links_to_update only_null data0 = Inr todo"
    and "0 < max_workers"
    and "dump (data0\<lparr>heap := fst (process_completed ip6addr (pool todo) (heap data0, 0, 0))\<rparr>)
           = WriteFails left"
    and "dump' data = WriteFails left'"
  shows "update_descriptions ip6addr pool dump only_null max_workers w =
           (w\<lparr>disk := left, printed := printed w @ [SaveFailed]\<rparr>,
            Some (data0\<lparr>heap := fst (process_completed ip6addr (pool todo) (heap data0, 0, 0))\<rparr>),
            Return \<lparr>rep_updated = 0, rep_failed = length todo, rep_total = length todo\<rparr>)
       \<and> save_webstack_data dump' data w\<^sub>l =
           (w\<^sub>l\<lparr>disk := left', printed := printed w\<^sub>l @ [SaveFailed]\<rparr>, Exit 1)"
  using assms by (simp add: update_descriptions_def save_webstack_data_def Let_def)

text \<open>C2, amended, on the example dataset with a file system that takes no write.\<close>

theorem failed_save_reported_witness:
  "disk example_world = Some example_data
   \<and> links_to_update True example_data = Inr [github_item]
   \<and> (0::int) < 5
   \<and> disk_full (example_data\<lparr>heap := fst (process_completed only_loopback
                     (fetched_pool [github_item]) (heap example_data, 0, 0))\<rparr>) = WriteFails None
   \<and> disk_full example_data = WriteFails None
   \<and> printed (fst (update_descriptions only_loopback fetched_pool disk_full True 5 example_world))
       = [SaveFailed]
   \<and> snd (snd (update_descriptions only_loopback fetched_pool disk_full True 5 example_world))
       = Return \<lparr>rep_updated = 0, rep_failed = 1, rep_total = 1\<rparr>
   \<and> map_option (\<lambda>d. description (heap d 0))
        (fst (snd (update_descriptions only_loopback fetched_pool disk_full True 5 example_world)))
       = Some (Some (YStr ''The platform for developers''))
   \<and> save_webstack_data disk_full example_data example_world
       = (example_world\<lparr>disk := None, printed := printed example_world @ [SaveFailed]\<rparr>, Exit 1)"
proof -
  have h1: "disk example_world = Some example_data" by (simp add: example_world_def)
  have h2: "links_to_update True example_data = Inr [github_item]" by code_simp
  have h5: "(0::int) < 5" by simp
  have h3: "disk_full (example_data\<lparr>heap := fst (process_completed only_loopback
                     (fetched_pool [github_item]) (heap example_data, 0, 0))\<rparr>) = WriteFails None"
    by (simp add: disk_full_def)
  have h4: "disk_full example_data = WriteFails None" by (simp add: disk_full_def)
  have d: "map_option (\<lambda>d. description (heap d 0))
        (fst (snd (update_descriptions only_loopback fetched_pool disk_full True 5 example_world)))
       = Some (Some (YStr ''The platform for developers''))"
    by code_simp
  show ?thesis
    using h1 h2 h3 h4 d
      failed_save_reported [where pool = fetched_pool and dump = disk_full and dump' = disk_full
        and ip6addr = only_loopback and w\<^sub>l = example_world, OF h1 h2 h5 h3 h4]
    by (simp add: example_world_def)
qed

section \<open>Properties of \<open>verify_existing_logos\<close>\<close>

lemma collect_probes_invalid:
  "snd (collect_probes cs acc) = snd acc @ map fst (filter (\<lambda>x. snd x = Probed False) cs)"
proof (induction cs arbitrary: acc)
  case Nil
  then show ?case by simp
next
  case (Cons x cs)
  show ?case
    by (cases acc; cases "snd x")
       (auto simp: Cons.IH note_probe_def Let_def)
qed

lemma clear_logos_entry:
  "clear_logos its h a =
     (if a \<in> link_ref ` set its then (h a)\<lparr>logo := Some (YStr [])\<rparr> else h a)"
proof (induction its arbitrary: h)
  case Nil
  then show ?case by simp
next
  case (Cons it its)
  show ?case by (auto simp: Cons.IH)
qed

text \<open>
  The endings of a run on a loaded dataset: nothing was probed or no probe failed, and
  nothing changed; or a probe failed, the invalid logos were cleared in memory, and the
  save either succeeded or ended the process.
\<close>

lemma verify_cases:
  assumes "disk w = Some doc0"
  shows "\<exists>w' doc' e. verify_existing_logos pool dump max_workers w = (w', Some doc', e)
      \<and> (map fst (filter (\<lambda>x. snd x = Probed False) (probed pool max_workers doc0)) = []
            \<and> w' = w \<and> doc' = doc0
         \<or> map fst (filter (\<lambda>x. snd x = Probed False) (probed pool max_workers doc0)) \<noteq> []
            \<and> doc' = doc0\<lparr>heap := clear_logos
                  (map fst (filter (\<lambda>x. snd x = Probed False) (probed pool max_workers doc0))) (heap doc0)\<rparr>
            \<and> (dump doc' = Written \<and> w' = w\<lparr>disk := Some doc'\<rparr> \<and> (\<exists>st. e = Return st)
                \<or> dump doc' \<noteq> Written \<and> e = Exit 1))"
  using assms
  by (auto simp: verify_existing_logos_def probed_def Let_def save_webstack_data_def
                 collect_probes_invalid
           split: sum.splits if_splits write_outcome.splits)

text \<open>
  C10, as stated, fails when a YAML alias puts one entry at two positions: its logo is
  probed twice, the first probe passes and the second fails, and the logo of the entry
  whose logo passed is cleared.
\<close>

theorem shared_logo_cleared_counterexample:
  "logos_to_check shared_data = Inr [github_logo, github_logo]
   \<and> flaky_pool [github_logo, github_logo]
       = [(github_logo, Probed True), (github_logo, Probed False)]
   \<and> logo (heap shared_data (link_ref github_logo)) = Some (YStr ''https://github.com/favicon.ico'')
   \<and> map_option (\<lambda>d. logo (heap d (link_ref github_logo)))
        (fst (snd (verify_existing_logos flaky_pool disk_ok 3 shared_world)))
       = Some (Some (YStr []))"
  by code_simp

text \<open>
  C10, amended: in every run of the verify command on a loaded dataset, every entry
  one of whose probes failed has its logo set to the empty string and no other field
  changed, every entry none of whose probes failed is as before (an entry that a YAML
  alias puts at several positions is probed once for each), the categories and groups
  are as before, the file and the output are untouched when no probe failed, and when
  one failed either the file is rewritten with the cleaned dataset and the command
  returns, or the write fails and the process ends with status 1.
\<close>

theorem verify_clears_failed_logos:
  assumes "disk w = Some doc0"
  shows "\<exists>w' doc' e. verify_existing_logos pool dump max_workers w = (w', Some doc', e)
       \<and> cats doc' = cats doc0
       \<and> (\<forall>it. (it, Probed False) \<in> set (probed pool max_workers doc0) \<longrightarrow>
             heap doc' (link_ref it) = (heap doc0 (link_ref it))\<lparr>logo := Some (YStr [])\<rparr>)
       \<and> (\<forall>a. (\<forall>x\<in>set (probed pool max_workers doc0). link_ref (fst x) = a \<longrightarrow> snd x \<noteq> Probed False)
             \<longrightarrow> heap doc' a = heap doc0 a)
       \<and> ((\<forall>x\<in>set (probed pool max_workers doc0). snd x \<noteq> Probed False) \<longrightarrow> w' = w)
       \<and> ((\<exists>x\<in>set (probed pool max_workers doc0). snd x = Probed False) \<longrightarrow>
             (dump doc' = Written \<and> disk w' = Some doc' \<and> (\<exists>st. e = Return st))
             \<or> (dump doc' \<noteq> Written \<and> e = Exit 1))"
proof -
  let ?cs = "probed pool max_workers doc0"
  let ?inv = "map fst (filter (\<lambda>x. snd x = Probed False) ?cs)"
  have inv_set: "\<And>a. a \<in> link_ref ` set ?inv \<longleftrightarrow>
                   (\<exists>x\<in>set ?cs. link_ref (fst x) = a \<and> snd x = Probed False)"
    unfolding set_map set_filter by force
  have inv_nil: "?inv = [] \<longleftrightarrow> (\<forall>x\<in>set ?cs. snd x \<noteq> Probed False)"
    by (auto simp: filter_empty_conv)
  from verify_cases [OF assms, of pool dump max_workers]
  obtain w' doc' e where r: "verify_existing_logos pool dump max_workers w = (w', Some doc', e)"
    and cases: "?inv = [] \<and> w' = w \<and> doc' = doc0
         \<or> ?inv \<noteq> [] \<and> doc' = doc0\<lparr>heap := clear_logos ?inv (heap doc0)\<rparr>
            \<and> (dump doc' = Written \<and> w' = w\<lparr>disk := Some doc'\<rparr> \<and> (\<exists>st. e = Return st)
                \<or> dump doc' \<noteq> Written \<and> e = Exit 1)"
    by blast
  have C: "cats doc' = cats doc0" using cases by auto
  have A: "heap doc' (link_ref it) = (heap doc0 (link_ref it))\<lparr>logo := Some (YStr [])\<rparr>"
    if "(it, Probed False) \<in> set ?cs" for it
  proof -
    from that have m: "link_ref it \<in> link_ref ` set ?inv" unfolding inv_set by force
    from that have "?inv \<noteq> []" unfolding inv_nil by force
    with cases have "doc' = doc0\<lparr>heap := clear_logos ?inv (heap doc0)\<rparr>" by blast
    with m show ?thesis by (simp add: clear_logos_entry)
  qed
  have B: "heap doc' a = heap doc0 a"
    if "\<forall>x\<in>set ?cs. link_ref (fst x) = a \<longrightarrow> snd x \<noteq> Probed False" for a
  proof -
    from that have "a \<notin> link_ref ` set ?inv" unfolding inv_set by blast
    with cases show ?thesis by (auto simp: clear_logos_entry)
  qed
  have D1: "w' = w" if "\<forall>x\<in>set ?cs. snd x \<noteq> Probed False"
    using that cases inv_nil by blast
  have D2: "(dump doc' = Written \<and> disk w' = Some doc' \<and> (\<exists>st. e = Return st))
             \<or> (dump doc' \<noteq> Written \<and> e = Exit 1)"
    if "\<exists>x\<in>set ?cs. snd x = Probed False"
  proof -
    from that have "?inv \<noteq> []" unfolding inv_nil by blast
    with cases show ?thesis by auto
  qed
  from r C A B D1 D2 show ?thesis by blast
qed

text \<open>C10, amended, on the example dataset, where one logo passes and one fails.\<close>

theorem verify_clears_failed_logos_witness:
  "disk example_world = Some example_data
   \<and> probed probe_pool 3 example_data = [(docs_logo, Probed False), (github_logo, Probed True)]
   \<and> (\<exists>w' doc' e. verify_existing_logos probe_pool disk_ok 3 example_world = (w', Some doc', e)
         \<and> cats doc' = cats example_data
         \<and> heap doc' 1 = docs_entry\<lparr>logo := Some (YStr [])\<rparr>
         \<and> heap doc' 0 = github_entry
         \<and> disk_ok doc' = Written \<and> disk w' = Some doc')"
proof -
  have h1: "disk example_world = Some example_data" by (simp add: example_world_def)
  have p: "probed probe_pool 3 example_data = [(docs_logo, Probed False), (github_logo, Probed True)]"
    by code_simp
  have r: "link_ref docs_logo = 1" "link_ref github_logo = 0"
    by (simp_all add: docs_logo_def github_logo_def)
  have e: "heap example_data 1 = docs_entry" "heap example_data 0 = github_entry"
    by (simp_all add: example_data_def example_heap_def)
  from verify_clears_failed_logos [where pool = probe_pool and dump = disk_ok
         and max_workers = 3, OF h1]
  obtain w' doc' e' where
    v: "verify_existing_logos probe_pool disk_ok 3 example_world = (w', Some doc', e')"
    and C: "cats doc' = cats example_data"
    and A: "\<forall>it. (it, Probed False) \<in> set (probed probe_pool 3 example_data) \<longrightarrow>
             heap doc' (link_ref it) = (heap example_data (link_ref it))\<lparr>logo := Some (YStr [])\<rparr>"
    and B: "\<forall>a. (\<forall>x\<in>set (probed probe_pool 3 example_data).
                    link_ref (fst x) = a \<longrightarrow> snd x \<noteq> Probed False)
             \<longrightarrow> heap doc' a = heap example_data a"
    and D: "(\<exists>x\<in>set (probed probe_pool 3 example_data). snd x = Probed False) \<longrightarrow>
             (disk_ok doc' = Written \<and> disk w' = Some doc' \<and> (\<exists>st. e' = Return st))
             \<or> (disk_ok doc' \<noteq> Written \<and> e' = Exit 1)"
    by blast
  from A p r e have a1: "heap doc' 1 = docs_entry\<lparr>logo := Some (YStr [])\<rparr>" by force
  from B p r e have a0: "heap doc' 0 = github_entry" by force
  have w: "disk_ok doc' = Written" by (simp add: disk_ok_def)
  from D p w have dk: "disk w' = Some doc'" by auto
  from v C a1 a0 w dk have "\<exists>w' doc' e. verify_existing_logos probe_pool disk_ok 3 example_world
         = (w', Some doc', e)
         \<and> cats doc' = cats example_data
         \<and> heap doc' 1 = docs_entry\<lparr>logo := Some (YStr [])\<rparr>
         \<and> heap doc' 0 = github_entry
         \<and> disk_ok doc' = Written \<and> disk w' = Some doc'"
    by blast
  with h1 p show ?thesis by blast
qed

end
